theory Spec2Isabelle
  imports Complex_Main "HOL-Library.Sublist"
begin

section \<open>Python values\<close>

text \<open>
  A Python \<open>str\<close> is a sequence of Unicode code points, and \<open>len\<close> counts code points.
  Code points are natural numbers here; \<open>ascii\<close> embeds an ASCII literal of the source,
  and the Chinese literals of the source are written as their code points.
\<close>

type_synonym codepoint = nat
type_synonym pystr = "codepoint list"

definition ascii :: "string \<Rightarrow> pystr" where
  "ascii s = map of_char s"

text \<open>
  \<open>str.isspace\<close>, which decides what \<open>str.strip()\<close> removes and what the pattern
  \<open>\s\<close> of \<open>re\<close> matches on a \<open>str\<close>.
\<close>

definition is_space :: "codepoint \<Rightarrow> bool" where
  "is_space c \<longleftrightarrow>
     (9 \<le> c \<and> c \<le> 13) \<or> (28 \<le> c \<and> c \<le> 32) \<or> c = 0x85 \<or> c = 0xA0 \<or> c = 0x1680 \<or>
     (0x2000 \<le> c \<and> c \<le> 0x200A) \<or> c = 0x2028 \<or> c = 0x2029 \<or> c = 0x202F \<or>
     c = 0x205F \<or> c = 0x3000"

definition lstrip_with :: "('a \<Rightarrow> bool) \<Rightarrow> 'a list \<Rightarrow> 'a list" where
  "lstrip_with P s = dropWhile P s"

definition rstrip_with :: "('a \<Rightarrow> bool) \<Rightarrow> 'a list \<Rightarrow> 'a list" where
  "rstrip_with P s = rev (dropWhile P (rev s))"

definition strip_with :: "('a \<Rightarrow> bool) \<Rightarrow> 'a list \<Rightarrow> 'a list" where
  "strip_with P s = rstrip_with P (lstrip_with P s)"

definition py_strip :: "pystr \<Rightarrow> pystr" where
  "py_strip s = strip_with is_space s"

definition ascii_lower :: "codepoint \<Rightarrow> codepoint" where
  "ascii_lower c = (if 65 \<le> c \<and> c \<le> 90 then c + 32 else c)"

text \<open>
  \<open>str.lower()\<close>. On a string of ASCII characters it maps \<open>A\<close>..\<open>Z\<close> to
  \<open>a\<close>..\<open>z\<close>. On any other string the result comes from the Unicode character
  database of the interpreter, which is the parameter \<open>uni\<close>.
\<close>

definition py_lower :: "(pystr \<Rightarrow> pystr) \<Rightarrow> pystr \<Rightarrow> pystr" where
  "py_lower uni s = (if list_all (\<lambda>c. c < 128) s then map ascii_lower s else uni s)"

text \<open>The slices \<open>xs[i:]\<close> and \<open>xs[:j]\<close>: a negative index counts from the end.\<close>

definition py_slice_from :: "int \<Rightarrow> 'a list \<Rightarrow> 'a list" where
  "py_slice_from i xs =
     (let n = int (length xs);
          start = (if i < 0 then max (n + i) 0 else min i n)
      in drop (nat start) xs)"

definition py_slice_to :: "int \<Rightarrow> 'a list \<Rightarrow> 'a list" where
  "py_slice_to j xs =
     (let n = int (length xs);
          stop = (if j < 0 then max (n + j) 0 else min j n)
      in take (nat stop) xs)"

text \<open>The test \<open>sub in s\<close> on strings: \<open>sub\<close> occurs in \<open>s\<close> as a substring.\<close>

fun py_contains :: "'a list \<Rightarrow> 'a list \<Rightarrow> bool" where
  "py_contains sub [] = (sub = [])"
| "py_contains sub (c # s) = (prefix sub (c # s) \<or> py_contains sub s)"

text \<open>
  \<open>s.count(sub)\<close>: the number of occurrences of \<open>sub\<close> in \<open>s\<close> that do not overlap,
  found from left to right; for the empty \<open>sub\<close> it is \<open>len(s) + 1\<close>.
\<close>

function py_count :: "'a list \<Rightarrow> 'a list \<Rightarrow> nat" where
  "py_count sub s =
     (if sub = [] then length s + 1
      else if s = [] then 0
      else if prefix sub s then 1 + py_count sub (drop (length sub) s)
      else py_count sub (tl s))"
  by pat_completeness auto
termination
  by (relation "measure (\<lambda>(sub, s). length s)") auto

declare py_count.simps [simp del]

text \<open>The number of positions of \<open>s\<close> at which \<open>t\<close> occurs, overlapping or not.\<close>

fun occurrences :: "'a list \<Rightarrow> 'a list \<Rightarrow> nat" where
  "occurrences t [] = 0"
| "occurrences t (c # s) = (if prefix t (c # s) then 1 else 0) + occurrences t s"

text \<open>
  Exceptions carry their class and the text that \<open>str(e)\<close> returns. The classes
  KeyboardInterrupt, SystemExit and asyncio's CancelledError derive from BaseException
  only: a handler \<open>except Exception\<close> does not catch them.
\<close>

datatype exc_class =
  OSError | ValueError | TypeError | KeyError | AttributeError | RuntimeError | OtherException
| KeyboardInterrupt | SystemExit | CancelledError

datatype py_exception = PyExc exc_class pystr

fun exc_text :: "py_exception \<Rightarrow> pystr" where
  "exc_text (PyExc c t) = t"

fun exc_cls :: "py_exception \<Rightarrow> exc_class" where
  "exc_cls (PyExc c t) = c"

fun derives_from_Exception :: "exc_class \<Rightarrow> bool" where
  "derives_from_Exception KeyboardInterrupt = False"
| "derives_from_Exception SystemExit = False"
| "derives_from_Exception CancelledError = False"
| "derives_from_Exception c = True"

text \<open>
  Values of the dynamically typed fields and arguments: what a YAML document, a keyword
  argument or the \<open>data\<close> of a tool response can hold. A float is a rational number,
  an infinity or NaN.
\<close>

datatype pyfloat = Finite rat | PosInf | NegInf | NaN

datatype pyval =
  VNone | VBool bool | VInt int | VFloat pyfloat | VStr pystr
| VList "pyval list" | VDict "(pystr \<times> pyval) list"

type_synonym kwargs = "(pystr \<times> pyval) list"


section \<open>The interactive loop of the CLI (main.py)\<close>

text \<open>An entry of the conversation history: the dict with keys role, content, timestamp.\<close>

record history_entry =
  role :: string
  content :: pystr
  timestamp :: pystr

text \<open>
  What \<open>process_message\<close> hands back to the loop: the keys \<open>success\<close> and
  \<open>response\<close> of its result.
\<close>

record reply =
  reply_success :: bool
  reply_response :: pystr

text \<open>
  Lines 189 to 205 of \<open>interactive_mode\<close>: the user's line is appended, the answer is
  appended when the turn succeeded, and the history is cut when it is longer than
  \<open>max_conversation_history * 2\<close>. The slice index is \<open>-max_conversation_history * 2\<close>,
  which Python reads as \<open>(-max_conversation_history) * 2\<close>.
\<close>

definition update_history ::
  "int \<Rightarrow> pystr \<Rightarrow> reply \<Rightarrow> pystr \<Rightarrow> pystr \<Rightarrow> history_entry list \<Rightarrow> history_entry list" where
  "update_history max_conversation_history user_input r t1 t2 conversation_history =
     (let h1 = conversation_history @
                 [\<lparr>role = ''user'', content = user_input, timestamp = t1\<rparr>];
          h2 = (if reply_success r
                then h1 @ [\<lparr>role = ''assistant'', content = reply_response r, timestamp = t2\<rparr>]
                else h1)
      in if int (length h2) > max_conversation_history * 2
         then py_slice_from (- max_conversation_history * 2) h2
         else h2)"

text \<open>
  \<open>handle_special_command\<close>, as far as the history goes: \<open>clear\<close> empties it,
  \<open>exit\<close> and \<open>quit\<close> raise KeyboardInterrupt, which ends the loop (the result
  \<open>None\<close>), every other command leaves the history as it is.
\<close>

definition handle_special_command ::
  "(pystr \<Rightarrow> pystr) \<Rightarrow> pystr \<Rightarrow> history_entry list \<Rightarrow> history_entry list option" where
  "handle_special_command uni command conversation_history =
     (let c = py_strip (py_lower uni command)
      in if c = ascii ''clear'' then Some []
         else if c = ascii ''exit'' \<or> c = ascii ''quit'' then None
         else Some conversation_history)"

text \<open>
  What one pass of the loop reads from outside: the line typed, what the agent call
  gives for it (an exception of the call or of rendering its answer is caught by the
  loop, which goes on with the history unchanged), and the clock at the two appends.
\<close>

record turn =
  line :: pystr
  agent_result :: "py_exception + reply"
  time_user :: pystr
  time_assistant :: pystr

definition interactive_turn ::
  "(pystr \<Rightarrow> pystr) \<Rightarrow> int \<Rightarrow> turn \<Rightarrow> history_entry list \<Rightarrow> history_entry list option" where
  "interactive_turn uni max_conversation_history t conversation_history =
     (let user_input = py_strip (line t)
      in if user_input \<noteq> [] \<and> hd user_input = 47
         then handle_special_command uni (tl user_input) conversation_history
         else if user_input = [] then Some conversation_history
         else (case agent_result t of
                 Inl e \<Rightarrow> Some conversation_history
               | Inr r \<Rightarrow> Some (update_history max_conversation_history user_input r
                                 (time_user t) (time_assistant t) conversation_history)))"

text \<open>
  The loop over the turns of a session, from a given history; the histories after each
  turn are collected, and the loop stops at \<open>exit\<close>.
\<close>

fun interactive_mode ::
  "(pystr \<Rightarrow> pystr) \<Rightarrow> int \<Rightarrow> turn list \<Rightarrow> history_entry list \<Rightarrow> history_entry list list" where
  "interactive_mode uni m [] h = []"
| "interactive_mode uni m (t # ts) h =
     (case interactive_turn uni m t h of
        None \<Rightarrow> []
      | Some h' \<Rightarrow> h' # interactive_mode uni m ts h')"

text \<open>
  The \<open>k\<close>-th turn of a test session: the line is \<open>k + 1\<close> letters q, the agent
  answers it with \<open>k + 1\<close> letters a.
\<close>

definition turn_pair :: "nat \<Rightarrow> turn" where
  "turn_pair k =
     \<lparr>line = replicate (Suc k) 113,
      agent_result = Inr \<lparr>reply_success = True, reply_response = replicate (Suc k) 97\<rparr>,
      time_user = [], time_assistant = []\<rparr>"

text \<open>What a session of the turns \<open>ks\<close> appends, when nothing is dropped.\<close>

definition transcript :: "nat list \<Rightarrow> history_entry list" where
  "transcript ks =
     concat (map (\<lambda>k. [\<lparr>role = ''user'', content = replicate (Suc k) 113, timestamp = []\<rparr>,
                       \<lparr>role = ''assistant'', content = replicate (Suc k) 97, timestamp = []\<rparr>]) ks)"


section \<open>The tool framework (base_tool.py)\<close>

record ToolResponse =
  success :: bool
  message :: pystr
  data :: pyval
  error :: "pystr option"


text \<open>What a call does besides returning: the methods of the tool it enters, and its log lines.\<close>

datatype event =
  EnterValidate kwargs | EnterExecute kwargs
| LogInfo pystr | LogWarning pystr | LogError pystr











section \<open>The shell tool's safety gate (shell_tool.py)\<close>

text \<open>
  The list \<open>dangerous_commands\<close> that \<open>__init__\<close> builds; the parameter says whether
  \<open>platform.system()\<close> is Windows. The code point 92 is the backslash.
\<close>

definition dangerous_commands :: "bool \<Rightarrow> pystr list" where
  "dangerous_commands windows =
     [ascii ''rm -rf /'', ascii ''format'', ascii ''del /f /s /q'', ascii ''shutdown'',
      ascii ''reboot'', ascii ''halt'', ascii ''poweroff'', ascii ''mkfs'',
      ascii ''dd if=/dev/zero'', ascii ''chmod -R 777 /'', ascii ''chown -R root:root /'',
      ascii ''mv / /dev/null'', ascii ''> /dev/sda'', ascii ''wget http://malicious'',
      ascii ''curl http://malicious'', ascii ''nc -l -p'', ascii ''ncat -l -p'',
      ascii ''socat TCP-LISTEN'', ascii ''python -m SimpleHTTPServer''] @
     (if windows
      then [ascii ''rmdir /s /q '' @ [92], ascii ''del /f /s /q '' @ [92] @ ascii ''*.*'',
            ascii ''format c:'', ascii ''bootrec'', ascii ''bcdedit'', ascii ''diskpart'',
            ascii ''reg delete'']
      else [ascii '':(){ :|:& };:'', ascii ''fork bomb'', ascii ''sudo rm -rf /'',
            ascii ''chmod 777 /etc/passwd'', ascii ''userdel -r''])"

text \<open>The list \<open>dangerous_chars\<close>; the code point 96 is the backquote.\<close>

definition dangerous_chars :: "pystr list" where
  "dangerous_chars =
     [ascii '';'', ascii ''|'', ascii ''&'', [96], ascii ''$('', ascii ''&&'', ascii ''||'',
      ascii ''>'', ascii ''>>'', ascii ''<'']"

text \<open>The first loop: the first entry of the list that the lowered command contains.\<close>

fun find_dangerous :: "(pystr \<Rightarrow> pystr) \<Rightarrow> pystr list \<Rightarrow> pystr \<Rightarrow> bool" where
  "find_dangerous uni [] command_lower = False"
| "find_dangerous uni (dangerous # rest) command_lower =
     (if py_contains (py_lower uni dangerous) command_lower then True
      else find_dangerous uni rest command_lower)"

text \<open>The second loop: the first token that is in the command more than twice.\<close>

fun find_injection :: "pystr list \<Rightarrow> pystr \<Rightarrow> bool" where
  "find_injection [] command = False"
| "find_injection (char # rest) command =
     (if py_contains char command \<and> py_count char command > 2 then True
      else find_injection rest command)"

text \<open>\<open>_is_command_safe\<close>, with the warning it logs when it rejects.\<close>

definition is_command_safe ::
  "(pystr \<Rightarrow> pystr) \<Rightarrow> bool \<Rightarrow> pystr \<Rightarrow> bool \<times> event list" where
  "is_command_safe uni windows command =
     (let command_lower = py_strip (py_lower uni command)
      in if find_dangerous uni (dangerous_commands windows) command_lower
         then (False, [LogWarning ([0x68C0, 0x6D4B, 0x5230, 0x5371, 0x9669, 0x547D, 0x4EE4] @
                                   ascii '': '' @ command)])
         else if find_injection dangerous_chars command
         then (False, [LogWarning ([0x68C0, 0x6D4B, 0x5230, 0x53EF, 0x80FD, 0x7684, 0x547D, 0x4EE4,
                                    0x6CE8, 0x5165] @ ascii '': '' @ command)])
         else (True, []))"

text \<open>
  A string that is not empty and neither begins nor ends with white space: stripping
  the string it is searched in does not change whether it occurs there.
\<close>

definition solid :: "pystr \<Rightarrow> bool" where
  "solid d \<longleftrightarrow> d \<noteq> [] \<and> \<not> is_space (hd d) \<and> \<not> is_space (last d)"


section \<open>Settings (config/settings.py)\<close>

text \<open>
  The dataclasses of the configuration. A dataclass does not check the annotated types
  of its fields, so a field holds whatever value the YAML document or the caller gave:
  every field is a \<open>pyval\<close>. Where two dataclasses have a field of the same name, and for
  the fields \<open>path\<close> and \<open>file\<close>, the field carries the name of its section in
  front.
\<close>

record AgentConfig =
  model :: pyval
  base_url :: pyval
  api_key :: pyval
  max_tokens :: pyval
  temperature :: pyval
  max_conversation_history :: pyval

record WorkspaceConfig =
  workspace_path :: pyval
  max_size_mb :: pyval
  auto_cleanup :: pyval

record BrowserConfig =
  headless :: pyval
  timeout_seconds :: pyval
  window_size :: pyval

record SearchConfig =
  engine :: pyval
  max_results :: pyval
  search_timeout_seconds :: pyval
  search_api_key :: pyval

record ToolsConfig =
  file_operations :: pyval
  shell_commands :: pyval
  web_search :: pyval
  browser_automation :: pyval

record LoggingConfig =
  level :: pyval
  logging_file :: pyval
  logging_max_size_mb :: pyval
  backup_count :: pyval

record SecurityConfig =
  allow_network :: pyval
  allowed_domains :: pyval
  block_shell_commands :: pyval

record Settings =
  agent :: AgentConfig
  workspace :: WorkspaceConfig
  browser :: BrowserConfig
  search :: SearchConfig
  tools :: ToolsConfig
  logging :: LoggingConfig
  security :: SecurityConfig

text \<open>The defaults of the dataclasses; the float 0.7 is written as the fraction 7/10.\<close>

definition default_AgentConfig :: AgentConfig where
  "default_AgentConfig =
     \<lparr>model = VStr [], base_url = VStr [], api_key = VStr [], max_tokens = VInt 4000,
      temperature = VFloat (Finite (7 / 10)), max_conversation_history = VInt 10\<rparr>"

definition default_WorkspaceConfig :: WorkspaceConfig where
  "default_WorkspaceConfig =
     \<lparr>workspace_path = VStr (ascii ''./workspace''), max_size_mb = VInt 100, auto_cleanup = VBool True\<rparr>"

definition default_BrowserConfig :: BrowserConfig where
  "default_BrowserConfig =
     \<lparr>headless = VBool True, timeout_seconds = VInt 30,
      window_size = VDict [(ascii ''width'', VInt 1920), (ascii ''height'', VInt 1080)]\<rparr>"

definition default_SearchConfig :: SearchConfig where
  "default_SearchConfig =
     \<lparr>engine = VStr (ascii ''tavily''), max_results = VInt 10,
      search_timeout_seconds = VInt 15, search_api_key = VStr []\<rparr>"

definition default_ToolsConfig :: ToolsConfig where
  "default_ToolsConfig =
     \<lparr>file_operations = VBool True, shell_commands = VBool True, web_search = VBool True,
      browser_automation = VBool True\<rparr>"

definition default_LoggingConfig :: LoggingConfig where
  "default_LoggingConfig =
     \<lparr>level = VStr (ascii ''INFO''), logging_file = VStr (ascii ''./suna-lite.log''),
      logging_max_size_mb = VInt 10, backup_count = VInt 5\<rparr>"

definition default_SecurityConfig :: SecurityConfig where
  "default_SecurityConfig =
     \<lparr>allow_network = VBool True, allowed_domains = VList [],
      block_shell_commands =
        VList [VStr (ascii ''rm -rf''), VStr (ascii ''format''), VStr (ascii ''del'')]\<rparr>"

definition default_Settings :: Settings where
  "default_Settings =
     \<lparr>agent = default_AgentConfig, workspace = default_WorkspaceConfig,
      browser = default_BrowserConfig, search = default_SearchConfig,
      tools = default_ToolsConfig, logging = default_LoggingConfig,
      security = default_SecurityConfig\<rparr>"

subsection \<open>Truth values and comparisons of Python\<close>

text \<open>\<open>bool(v)\<close>, which \<open>not v\<close> negates.\<close>

fun truthy :: "pyval \<Rightarrow> bool" where
  "truthy VNone = False"
| "truthy (VBool b) = b"
| "truthy (VInt i) = (i \<noteq> 0)"
| "truthy (VFloat f) = (f \<noteq> Finite 0)"
| "truthy (VStr s) = (s \<noteq> [])"
| "truthy (VList xs) = (xs \<noteq> [])"
| "truthy (VDict d) = (d \<noteq> [])"

text \<open>The order of floats: every comparison with NaN is false.\<close>

fun float_le :: "pyfloat \<Rightarrow> pyfloat \<Rightarrow> bool" where
  "float_le NaN y = False"
| "float_le x NaN = False"
| "float_le NegInf y = True"
| "float_le x PosInf = True"
| "float_le (Finite a) (Finite b) = (a \<le> b)"
| "float_le x y = False"

text \<open>
  The number that an int, a bool or a float stands for in a comparison (Python compares
  an int with a float by their exact values); no other value compares with an int.
\<close>

fun number_of :: "pyval \<Rightarrow> pyfloat option" where
  "number_of (VInt i) = Some (Finite (of_int i))"
| "number_of (VBool b) = Some (Finite (if b then 1 else 0))"
| "number_of (VFloat f) = Some f"
| "number_of v = None"

fun type_name :: "pyval \<Rightarrow> pystr" where
  "type_name VNone = ascii ''NoneType''"
| "type_name (VBool b) = ascii ''bool''"
| "type_name (VInt i) = ascii ''int''"
| "type_name (VFloat f) = ascii ''float''"
| "type_name (VStr s) = ascii ''str''"
| "type_name (VList xs) = ascii ''list''"
| "type_name (VDict d) = ascii ''dict''"

text \<open>\<open>v <= n\<close> and \<open>n <= v\<close> for an int \<open>n\<close>: a bool, or the TypeError of Python.\<close>

definition le_int :: "pyval \<Rightarrow> int \<Rightarrow> py_exception + bool" where
  "le_int v n =
     (case number_of v of
        Some x \<Rightarrow> Inr (float_le x (Finite (of_int n)))
      | None \<Rightarrow> Inl (PyExc TypeError
                  ([39] @ ascii ''<='' @ [39] @ ascii '' not supported between instances of '' @
                   [39] @ type_name v @ [39] @ ascii '' and '' @ [39] @ ascii ''int'' @ [39])))"

definition int_le :: "int \<Rightarrow> pyval \<Rightarrow> py_exception + bool" where
  "int_le n v =
     (case number_of v of
        Some x \<Rightarrow> Inr (float_le (Finite (of_int n)) x)
      | None \<Rightarrow> Inl (PyExc TypeError
                  ([39] @ ascii ''<='' @ [39] @ ascii '' not supported between instances of '' @
                   [39] @ ascii ''int'' @ [39] @ ascii '' and '' @ [39] @ type_name v @ [39])))"

text \<open>
  The chained comparison \<open>lo <= v <= hi\<close>: the second comparison is made only when the
  first one is true.
\<close>

definition chained_le :: "int \<Rightarrow> pyval \<Rightarrow> int \<Rightarrow> py_exception + bool" where
  "chained_le lo v hi =
     (case int_le lo v of
        Inl e \<Rightarrow> Inl e
      | Inr False \<Rightarrow> Inr False
      | Inr True \<Rightarrow> le_int v hi)"

text \<open>
  \<open>try: body except Exception as e: handler\<close>. An exception that does not derive from
  \<open>Exception\<close> passes through.
\<close>

definition try_except_Exception ::
  "(py_exception + 'a) \<Rightarrow> (py_exception \<Rightarrow> py_exception + 'a) \<Rightarrow> py_exception + 'a" where
  "try_except_Exception body handler =
     (case body of
        Inr v \<Rightarrow> Inr v
      | Inl e \<Rightarrow> if derives_from_Exception (exc_cls e) then handler e else Inl e)"

subsection \<open>validate\<close>

text \<open>
  One guarded check of \<open>validate\<close>: \<open>Some b\<close> when the check returns \<open>b\<close> from
  \<open>validate\<close>, \<open>None\<close> when \<open>validate\<close> goes on to the next check. The lines that
  \<open>validate\<close> prints are left out.
\<close>

definition check_le_zero :: "pyval \<Rightarrow> py_exception + bool option" where
  "check_le_zero v =
     try_except_Exception
       (case le_int v 0 of
          Inl e \<Rightarrow> Inl e
        | Inr b \<Rightarrow> Inr (if b then Some False else None))
       (\<lambda>e. Inr (Some False))"

definition check_temperature :: "pyval \<Rightarrow> py_exception + bool option" where
  "check_temperature v =
     try_except_Exception
       (case chained_le 0 v 2 of
          Inl e \<Rightarrow> Inl e
        | Inr b \<Rightarrow> Inr (if \<not> b then Some False else None))
       (\<lambda>e. Inr (Some False))"

definition and_then ::
  "(py_exception + bool option) \<Rightarrow> (py_exception + bool) \<Rightarrow> py_exception + bool" where
  "and_then step rest =
     (case step of
        Inl e \<Rightarrow> Inl e
      | Inr (Some b) \<Rightarrow> Inr b
      | Inr None \<Rightarrow> rest)"

definition validate :: "Settings \<Rightarrow> py_exception + bool" where
  "validate s =
     (if \<not> truthy (api_key (agent s)) then Inr False
      else if \<not> truthy (base_url (agent s)) then Inr False
      else and_then (check_le_zero (max_tokens (agent s)))
          (and_then (check_temperature (temperature (agent s)))
          (and_then (check_le_zero (max_size_mb (workspace s)))
          (and_then (check_le_zero (timeout_seconds (browser s)))
          (and_then (check_le_zero (max_results (search s)))
          (Inr True))))))"

text \<open>
  The conditions of the specification, on the numbers the values stand for: the
  comparison raises a type error, the value is at most 0, the value is outside [0, 2].
\<close>

definition type_error :: "pyval \<Rightarrow> bool" where
  "type_error v \<longleftrightarrow> number_of v = None"

definition at_most_zero :: "pyval \<Rightarrow> bool" where
  "at_most_zero v \<longleftrightarrow> (case number_of v of Some x \<Rightarrow> float_le x (Finite 0) | None \<Rightarrow> False)"

definition outside_0_2 :: "pyval \<Rightarrow> bool" where
  "outside_0_2 v \<longleftrightarrow>
     (case number_of v of
        Some x \<Rightarrow> \<not> (float_le (Finite 0) x \<and> float_le x (Finite 2))
      | None \<Rightarrow> False)"

definition is_empty :: "pyval \<Rightarrow> bool" where
  "is_empty v \<longleftrightarrow> v = VStr [] \<or> v = VNone \<or> v = VBool False \<or> v = VInt 0 \<or>
     v = VFloat (Finite 0) \<or> v = VList [] \<or> v = VDict []"

text \<open>The settings of the positive example of the specification.\<close>

definition example_Settings :: Settings where
  "example_Settings =
     default_Settings\<lparr>agent := default_AgentConfig\<lparr>api_key := VStr (ascii ''sk-test''),
       base_url := VStr (ascii ''https://api.example.com/v1'')\<rparr>\<rparr>"


subsection \<open>save_to_file and load_from_file\<close>




text \<open>Sequencing of steps that may raise.\<close>

definition bind_exc :: "(py_exception + 'a) \<Rightarrow> ('a \<Rightarrow> py_exception + 'b) \<Rightarrow> py_exception + 'b" where
  "bind_exc m f = (case m of Inl e \<Rightarrow> Inl e | Inr v \<Rightarrow> f v)"













section \<open>Path containment (utils/helpers.py)\<close>

text \<open>
  A resolved path is the list of its components below the root; \<open>str\<close> of it joins
  them with slashes. \<open>Path.resolve\<close> depends on the file system (the working
  directory, symbolic links), so it is the parameter \<open>resolve\<close>: the components of
  the resolved path, or the exception raised.
\<close>

definition str_of_path :: "pystr list \<Rightarrow> pystr" where
  "str_of_path ps = (if ps = [] then [47] else concat (map (\<lambda>p. 47 # p) ps))"

text \<open>
  \<open>is_safe_path\<close>: both paths are resolved and the strings compared with
  \<open>startswith\<close>; the handler catches OSError and ValueError.
\<close>

definition is_safe_path ::
  "(pystr \<Rightarrow> py_exception + pystr list) \<Rightarrow> pystr \<Rightarrow> pystr \<Rightarrow> py_exception + bool" where
  "is_safe_path resolve path base_path =
     (case bind_exc (resolve path) (\<lambda>p.
           bind_exc (resolve base_path) (\<lambda>b.
             Inr (prefix (str_of_path b) (str_of_path p)))) of
        Inr r \<Rightarrow> Inr r
      | Inl e \<Rightarrow> if exc_cls e = OSError \<or> exc_cls e = ValueError then Inr False else Inl e)"

text \<open>
  The components of an absolute path that has no \<open>.\<close> or \<open>..\<close> component: what
  \<open>resolve\<close> gives for it where no component is a symbolic link.
\<close>

fun path_parts_from :: "pystr \<Rightarrow> pystr \<Rightarrow> pystr list" where
  "path_parts_from cur [] = (if cur = [] then [] else [cur])"
| "path_parts_from cur (c # s) =
     (if c = 47 then (if cur = [] then path_parts_from [] s else cur # path_parts_from [] s)
      else path_parts_from (cur @ [c]) s)"

definition path_parts :: "pystr \<Rightarrow> pystr list" where
  "path_parts s = path_parts_from [] s"

text \<open>
  Containment as the specification means it: the path is the base directory or lies
  below it, that is, the components of the base begin the components of the path.
\<close>

definition contained_in :: "pystr list \<Rightarrow> pystr list \<Rightarrow> bool" where
  "contained_in p b \<longleftrightarrow> prefix b p"

section \<open>The file tool (file_tool.py)\<close>

subsection \<open>clean_filename (utils/helpers.py)\<close>



text \<open>\<open>re.sub(r'[\s]+', '_', filename)\<close>: each run of white space becomes one underscore.\<close>

function collapse_space :: "pystr \<Rightarrow> pystr" where
  "collapse_space [] = []"
| "collapse_space (c # s) =
     (if is_space c then 95 # collapse_space (dropWhile is_space s)
      else c # collapse_space s)"
  by pat_completeness auto
termination
  by (relation "measure length") (auto simp: length_dropWhile_le less_Suc_eq_le)





subsection \<open>The workspace manager and the read and write actions\<close>

text \<open>
  The methods of the workspace manager that the two actions call. The class is not among
  the sources, so its methods are parameters: what each call returns or raises.
  \<open>guess_type\<close> below is \<open>mimetypes.guess_type\<close> of the standard library.
\<close>

record WorkspaceManager =
  read_file :: "pystr \<Rightarrow> pystr \<Rightarrow> py_exception + pystr option"
  resolve_path :: "pystr \<Rightarrow> py_exception + pystr"
  get_file_info :: "pystr \<Rightarrow> py_exception + kwargs option"
  write_file :: "pystr \<Rightarrow> pystr \<Rightarrow> pystr \<Rightarrow> py_exception + bool"

text \<open>The note that is put after a preview.\<close>

definition truncation_note :: pystr where
  "truncation_note =
     [10, 10] @ ascii ''... ['' @ [0x5185, 0x5BB9, 0x8FC7, 0x957F, 0xFF0C, 0x5DF2, 0x622A, 0x65AD] @
     ascii ''] ...''"

definition is_binary_mime :: "pystr option \<Rightarrow> bool" where
  "is_binary_mime mime_type =
     (case mime_type of
        None \<Rightarrow> False
      | Some m \<Rightarrow> m \<noteq> [] \<and> prefix (ascii ''application/'') m)"

definition FileTool_read_file ::
  "WorkspaceManager \<Rightarrow> (pystr \<Rightarrow> pystr option) \<Rightarrow> pystr \<Rightarrow> pystr \<Rightarrow>
   py_exception + ToolResponse" where
  "FileTool_read_file wm guess_type path encoding =
     try_except_Exception
       (bind_exc (read_file wm path encoding) (\<lambda>read_result.
          case read_result of
            None \<Rightarrow>
              Inr \<lparr>success = False,
                   message = [0x65E0, 0x6CD5, 0x8BFB, 0x53D6, 0x6587, 0x4EF6] @ ascii '': '' @ path,
                   data = VNone, error = Some (ascii ''File not found or unreadable'')\<rparr>
          | Some contents \<Rightarrow>
              bind_exc (resolve_path wm path) (\<lambda>full_path.
                let mime_type = guess_type full_path
                in if is_binary_mime mime_type
                   then bind_exc (get_file_info wm path) (\<lambda>file_info.
                     Inr \<lparr>success = True,
                          message = [0x68C0, 0x6D4B, 0x5230, 0x4E8C, 0x8FDB, 0x5236, 0x6587, 0x4EF6,
                                     0xFF0C, 0x663E, 0x793A, 0x57FA, 0x672C, 0x4FE1, 0x606F],
                          data = VDict
                            [(ascii ''type'', VStr (ascii ''binary'')),
                             (ascii ''mime_type'', VStr (the mime_type)),
                             (ascii ''size'',
                              (case file_info of
                                 None \<Rightarrow> VInt 0
                               | Some info \<Rightarrow>
                                   if info = [] then VInt 0
                                   else (case map_of info (ascii ''size'') of
                                           Some v \<Rightarrow> v | None \<Rightarrow> VInt 0))),
                             (ascii ''encoding'', VStr encoding),
                             (ascii ''note'',
                              VStr [0x8FD9, 0x662F, 0x4E00, 0x4E2A, 0x4E8C, 0x8FDB, 0x5236, 0x6587,
                                    0x4EF6, 0xFF0C, 0x65E0, 0x6CD5, 0x76F4, 0x63A5, 0x663E, 0x793A,
                                    0x5185, 0x5BB9])],
                          error = None\<rparr>)
                   else if length contents > 50000
                   then Inr \<lparr>success = True,
                             message = [0x8BFB, 0x53D6, 0x6587, 0x4EF6, 0x6210, 0x529F, 0xFF08, 0x5185,
                                        0x5BB9, 0x8FC7, 0x957F, 0xFF0C, 0x663E, 0x793A, 0x524D] @
                                       ascii ''5000'' @ [0x5B57, 0x7B26, 0xFF09],
                             data = VDict
                               [(ascii ''type'', VStr (ascii ''text'')),
                                (ascii ''content'', VStr (py_slice_to 5000 contents @ truncation_note)),
                                (ascii ''full_length'', VInt (int (length contents))),
                                (ascii ''encoding'', VStr encoding),
                                (ascii ''note'',
                                 VStr [0x6587, 0x4EF6, 0x5185, 0x5BB9, 0x8FC7, 0x957F, 0xFF0C, 0x4EC5,
                                       0x663E, 0x793A, 0x9884, 0x89C8])],
                             error = None\<rparr>
                   else Inr \<lparr>success = True,
                             message = [0x8BFB, 0x53D6, 0x6587, 0x4EF6, 0x6210, 0x529F],
                             data = VDict
                               [(ascii ''type'', VStr (ascii ''text'')),
                                (ascii ''content'', VStr contents),
                                (ascii ''length'', VInt (int (length contents))),
                                (ascii ''encoding'', VStr encoding)],
                             error = None\<rparr>)))
       (\<lambda>e. Inr \<lparr>success = False,
                 message = [0x8BFB, 0x53D6, 0x6587, 0x4EF6, 0x5931, 0x8D25] @ ascii '': '' @ exc_text e,
                 data = VNone, error = Some (exc_text e)\<rparr>)"


text \<open>A workspace manager for the examples: every file reads as the given text.\<close>

definition text_workspace :: "pystr \<Rightarrow> WorkspaceManager" where
  "text_workspace txt =
     \<lparr>read_file = (\<lambda>p enc. Inr (Some txt)), resolve_path = (\<lambda>p. Inr (ascii ''/ws/'' @ p)),
      get_file_info = (\<lambda>p. Inr None), write_file = (\<lambda>p c enc. Inr True)\<rparr>"


section \<open>The browser tool (browser_tool.py)\<close>





























section \<open>Properties of the interactive loop\<close>

lemma py_slice_from_neg:
  "0 < k \<Longrightarrow> py_slice_from (- k) xs = drop (length xs - nat k) xs"
  by (auto simp: py_slice_from_def Let_def max_def nat_diff_distrib'
           intro: arg_cong[where f="\<lambda>n. drop n xs"])

text \<open>
  With a positive \<open>max_conversation_history\<close> the update keeps the most recent
  \<open>2 * max_conversation_history\<close> entries, in their order.
\<close>

lemma update_history_keeps_most_recent:
  assumes "1 \<le> m"
  shows "update_history m u r t1 t2 h =
     (let full = h @ [\<lparr>role = ''user'', content = u, timestamp = t1\<rparr>] @
                   (if reply_success r
                    then [\<lparr>role = ''assistant'', content = reply_response r, timestamp = t2\<rparr>]
                    else [])
      in drop (length full - nat (m * 2)) full)"
  using assms
  by (auto simp: update_history_def Let_def py_slice_from_neg)

lemma update_history_bound:
  assumes "1 \<le> m"
  shows "int (length (update_history m u r t1 t2 h)) \<le> m * 2"
  using assms unfolding update_history_keeps_most_recent[OF assms] by (auto simp: Let_def)

lemma handle_special_command_bound:
  "handle_special_command uni c h = Some h' \<Longrightarrow> length h' \<le> length h"
  by (auto simp: handle_special_command_def Let_def split: if_splits)

lemma interactive_turn_bound:
  assumes "1 \<le> m" and "int (length h) \<le> m * 2" and "interactive_turn uni m t h = Some h'"
  shows "int (length h') \<le> m * 2"
proof (cases "py_strip (line t) \<noteq> [] \<and> hd (py_strip (line t)) = 47")
  case True
  with assms(3) have "handle_special_command uni (tl (py_strip (line t))) h = Some h'"
    by (simp add: interactive_turn_def Let_def)
  from handle_special_command_bound[OF this] assms(2) show ?thesis by linarith
next
  case False
  with assms(3) show ?thesis
    using assms(2) update_history_bound[OF assms(1)]
    by (auto simp: interactive_turn_def Let_def split: if_splits sum.splits)
qed

text \<open>
  With a positive \<open>max_conversation_history\<close>, every history of a session that starts
  within the bound stays within it.
\<close>

lemma interactive_mode_bound:
  assumes "1 \<le> m"
  shows "int (length h) \<le> m * 2 \<Longrightarrow> h' \<in> set (interactive_mode uni m ts h) \<Longrightarrow>
    int (length h') \<le> m * 2"
proof (induction ts arbitrary: h)
  case Nil
  then show ?case by simp
next
  case (Cons t ts)
  show ?case
  proof (cases "interactive_turn uni m t h")
    case None
    with Cons.prems show ?thesis by simp
  next
    case (Some h1)
    have b: "int (length h1) \<le> m * 2"
      using interactive_turn_bound[OF assms Cons.prems(1) Some] .
    from Cons.prems(2) Some have "h' = h1 \<or> h' \<in> set (interactive_mode uni m ts h1)"
      by simp
    then show ?thesis using b Cons.IH[OF b] by blast
  qed
qed

lemma strip_with_replicate:
  "\<not> P x \<Longrightarrow> strip_with P (replicate n x) = replicate n x"
  by (cases n)
     (simp_all add: strip_with_def lstrip_with_def rstrip_with_def replicate_append_same)

lemma turn_pair_step:
  "interactive_turn uni m (turn_pair k) h =
     Some (update_history m (replicate (Suc k) 113)
             \<lparr>reply_success = True, reply_response = replicate (Suc k) 97\<rparr> [] [] h)"
proof -
  have "py_strip (replicate (Suc k) 113) = replicate (Suc k) 113"
    unfolding py_strip_def by (rule strip_with_replicate) (simp add: is_space_def)
  then show ?thesis
    by (simp add: interactive_turn_def turn_pair_def Let_def del: replicate.simps)
qed

lemma drop_drop_append:
  "drop (length (drop (length X - n) X @ Y) - n) (drop (length X - n) X @ Y) =
   drop (length (X @ Y) - n) (X @ Y)"
  by (cases "length X \<le> n") (auto simp: add.commute)

lemma run_turn_pairs:
  assumes "1 \<le> m"
  shows "ks \<noteq> [] \<Longrightarrow> last (interactive_mode uni m (map turn_pair ks) h) =
     (let full = h @ transcript ks in drop (length full - nat (m * 2)) full)"
proof (induction ks arbitrary: h)
  case Nil
  then show ?case by simp
next
  case (Cons k ks)
  define p where "p = [\<lparr>role = ''user'', content = replicate (Suc k) 113, timestamp = []\<rparr>,
       \<lparr>role = ''assistant'', content = replicate (Suc k) 97, timestamp = []\<rparr>]"
  define h1 where "h1 = drop (length (h @ p) - nat (m * 2)) (h @ p)"
  have step: "interactive_turn uni m (turn_pair k) h = Some h1"
    by (simp add: turn_pair_step update_history_keeps_most_recent[OF assms] h1_def p_def Let_def
             del: replicate.simps)
  have tr: "transcript (k # ks) = p @ transcript ks"
    by (simp add: transcript_def p_def)
  show ?case
  proof (cases "ks = []")
    case True
    have "transcript [k] = p" by (simp add: transcript_def p_def)
    then show ?thesis using step True by (simp add: h1_def Let_def)
  next
    case False
    have "last (interactive_mode uni m (map turn_pair (k # ks)) h) =
          last (interactive_mode uni m (map turn_pair ks) h1)"
      using step False by (cases ks) (auto simp: turn_pair_step)
    also have "\<dots> = (let full = h1 @ transcript ks in drop (length full - nat (m * 2)) full)"
      by (rule Cons.IH[OF False])
    also have "\<dots> = (let full = (h @ p) @ transcript ks
                      in drop (length full - nat (m * 2)) full)"
      unfolding h1_def Let_def by (rule drop_drop_append)
    finally show ?thesis by (simp add: tr)
  qed
qed

text \<open>
  With \<open>max_conversation_history = 10\<close>, after 25 turn pairs the history is the 20 most
  recent entries, in their order.
\<close>

lemma twenty_five_turn_pairs:
  "last (interactive_mode uni 10 (map turn_pair [0..<25]) []) = transcript [15..<25] \<and>
   length (transcript [15..<25]) = 20"
proof -
  have a: "[0..<25] = [0..<15] @ [15..<25]"
    by (simp add: upt_add_eq_append[of 0 15 10, simplified])
  have l: "length (transcript ks) = 2 * length ks" for ks
    by (induction ks) (simp_all add: transcript_def)
  have t: "transcript (xs @ ys) = transcript xs @ transcript ys" for xs ys
    by (simp add: transcript_def)
  have "last (interactive_mode uni 10 (map turn_pair [0..<25]) []) = transcript [15..<25]"
    using run_turn_pairs[of 10 "[0..<25]" uni "[]"]
    by (simp add: Let_def l) (simp add: a t l)
  then show ?thesis by (simp add: l)
qed

text \<open>
  C8. The claim: after every turn the history holds at most
  \<open>2 * max_conversation_history\<close> entries. The code at \<open>max_conversation_history = 0\<close>:
  the test \<open>len(history) > 0\<close> holds, and the slice \<open>history[-0:]\<close> is the whole list,
  so nothing is dropped. After the first turn pair the history holds two entries, and
  over five turn pairs the lengths are 2, 4, 6, 8, 10.
\<close>

theorem history_not_trimmed_when_max_is_zero:
  "interactive_mode uni 0 [turn_pair 0] [] =
     [[\<lparr>role = ''user'', content = [113], timestamp = []\<rparr>,
       \<lparr>role = ''assistant'', content = [97], timestamp = []\<rparr>]] \<and>
   map length (interactive_mode uni 0 (map turn_pair [0..<5]) []) = [2, 4, 6, 8, 10]"
  by (simp add: upt_rec turn_pair_step update_history_def Let_def py_slice_from_def)

section \<open>Properties of the tool framework\<close>






section \<open>Properties of the shell tool's safety gate\<close>

lemma py_contains_sublist: "py_contains sub s \<longleftrightarrow> sublist sub s"
  by (induction s) (auto simp: sublist_Cons_right)

lemma sublist_dropWhile:
  assumes "d \<noteq> []" and "\<not> P (hd d)"
  shows "sublist d (dropWhile P s) \<longleftrightarrow> sublist d s"
proof (induction s)
  case Nil
  then show ?case by simp
next
  case (Cons c s)
  show ?case
  proof (cases "P c")
    case True
    have "\<not> prefix d (c # s)"
      using assms True by (cases d) auto
    then show ?thesis using True Cons by (simp add: sublist_Cons_right)
  next
    case False
    then show ?thesis by simp
  qed
qed

lemma sublist_strip_with:
  assumes "d \<noteq> []" and "\<not> P (hd d)" and "\<not> P (last d)"
  shows "sublist d (strip_with P s) \<longleftrightarrow> sublist d s"
proof -
  have r: "rev d \<noteq> []" "\<not> P (hd (rev d))"
    using assms by (simp_all add: hd_rev)
  have "sublist d (strip_with P s) \<longleftrightarrow> sublist (rev d) (dropWhile P (rev (dropWhile P s)))"
    unfolding strip_with_def rstrip_with_def lstrip_with_def
    by (metis sublist_rev rev_rev_ident)
  also have "\<dots> \<longleftrightarrow> sublist (rev d) (rev (dropWhile P s))"
    using r by (intro sublist_dropWhile)
  also have "\<dots> \<longleftrightarrow> sublist d (dropWhile P s)"
    by (rule sublist_rev)
  also have "\<dots> \<longleftrightarrow> sublist d s"
    using assms(1,2) by (intro sublist_dropWhile)
  finally show ?thesis .
qed

lemma find_dangerous_iff:
  assumes "list_all (\<lambda>d. solid (py_lower uni d)) ds"
  shows "find_dangerous uni ds (py_strip c) \<longleftrightarrow> (\<exists>d\<in>set ds. sublist (py_lower uni d) c)"
  using assms
  by (induction ds) (auto simp: py_contains_sublist py_strip_def solid_def sublist_strip_with)

lemma solid_dangerous: "list_all (\<lambda>d. solid (py_lower uni d)) (dangerous_commands w)"
  by (cases w) (simp_all add: dangerous_commands_def solid_def py_lower_def ascii_def ascii_lower_def is_space_def)


lemma py_count_Nil: "py_count t [] = (if t = [] then 1 else 0)"
  by (simp add: py_count.simps)

lemma py_count_Cons:
  "t \<noteq> [] \<Longrightarrow> py_count t (c # s) =
     (if prefix t (c # s) then 1 + py_count t (drop (length t - 1) s) else py_count t s)"
  by (subst py_count.simps) (cases t; simp)

lemma py_count_single: "py_count [c] s = occurrences [c] s"
  by (induction s) (auto simp: py_count_Nil py_count_Cons)

lemma occurrences_drop_le: "occurrences t (drop n s) \<le> occurrences t s"
proof (induction s arbitrary: n)
  case Nil
  then show ?case by simp
next
  case (Cons c s)
  show ?case
  proof (cases n)
    case 0
    then show ?thesis by simp
  next
    case (Suc k)
    have "occurrences t (drop k s) \<le> occurrences t s" by (rule Cons.IH)
    then show ?thesis using Suc by simp
  qed
qed

lemma py_count_le_occurrences: "t \<noteq> [] \<Longrightarrow> py_count t s \<le> occurrences t s"
proof (induction "length s" arbitrary: s rule: less_induct)
  case less
  show ?case
  proof (cases s)
    case Nil
    then show ?thesis using less.prems by (simp add: py_count_Nil)
  next
    case (Cons c r)
    show ?thesis
    proof (cases "prefix t s")
      case True
      obtain k where k: "length t = Suc k" using less.prems by (cases t) auto
      have "py_count t (drop k r) \<le> occurrences t (drop k r)"
        using less.prems Cons by (intro less.hyps) simp_all
      also have "\<dots> \<le> occurrences t r" by (rule occurrences_drop_le)
      finally show ?thesis using True Cons less.prems k by (simp add: py_count_Cons)
    next
      case False
      have "py_count t r \<le> occurrences t r"
        using less.prems Cons by (intro less.hyps) simp_all
      then show ?thesis using False Cons less.prems by (simp add: py_count_Cons)
    qed
  qed
qed

lemma py_count_pair: "a \<noteq> b \<Longrightarrow> py_count [a, b] s = occurrences [a, b] s"
proof (induction "length s" arbitrary: s rule: less_induct)
  case less
  show ?case
  proof (cases s)
    case Nil
    then show ?thesis by (simp add: py_count_Nil)
  next
    case (Cons c r)
    show ?thesis
    proof (cases "prefix [a, b] s")
      case True
      then obtain r' where r': "r = b # r'" and c: "c = a"
        using Cons by (cases r) auto
      have "py_count [a, b] r' = occurrences [a, b] r'"
        using less.prems Cons r' by (intro less.hyps) simp_all
      then show ?thesis using Cons r' c less.prems by (simp add: py_count_Cons)
    next
      case False
      have "py_count [a, b] r = occurrences [a, b] r"
        using less.prems Cons by (intro less.hyps) simp_all
      then show ?thesis using False Cons by (auto simp: py_count_Cons)
    qed
  qed
qed

lemma occurrences_head_le: "occurrences (c # t) s \<le> occurrences [c] s"
  by (induction s) auto

lemma py_count_pos_contains: "t \<noteq> [] \<Longrightarrow> 0 < py_count t s \<Longrightarrow> py_contains t s"
proof (induction s)
  case Nil
  then show ?case by (simp add: py_count_Nil)
next
  case (Cons c s)
  then show ?case by (cases "prefix t (c # s)") (auto simp: py_count_Cons)
qed

lemma find_injection_iff:
  assumes "list_all (\<lambda>t. t \<noteq> []) ts"
  shows "find_injection ts c \<longleftrightarrow> (\<exists>t\<in>set ts. 2 < py_count t c)"
  using assms
proof (induction ts)
  case Nil
  then show ?case by simp
next
  case (Cons t ts)
  have "2 < py_count t c \<Longrightarrow> py_contains t c"
    using Cons.prems by (intro py_count_pos_contains) simp_all
  then show ?case using Cons by auto
qed

lemma dangerous_chars_values:
  "dangerous_chars = [[59], [124], [38], [96], [36, 40], [38, 38], [124, 124], [62], [62, 62], [60]]"
  by (simp add: dangerous_chars_def ascii_def)

lemma more_than_twice_iff:
  "(\<exists>t\<in>set dangerous_chars. 2 < py_count t c) \<longleftrightarrow> (\<exists>t\<in>set dangerous_chars. 2 < occurrences t c)"
proof
  assume "\<exists>t\<in>set dangerous_chars. 2 < py_count t c"
  then obtain t where t: "t \<in> set dangerous_chars" "2 < py_count t c" by blast
  then have "t \<noteq> []" by (auto simp: dangerous_chars_values)
  from py_count_le_occurrences[OF this, of c] t show "\<exists>t\<in>set dangerous_chars. 2 < occurrences t c"
    by (intro bexI[of _ t]) simp_all
next
  assume "\<exists>t\<in>set dangerous_chars. 2 < occurrences t c"
  then obtain t where t: "t \<in> set dangerous_chars" "2 < occurrences t c" by blast
  have amp: "occurrences [38, 38] c \<le> py_count [38] c"
    using occurrences_head_le[of 38 "[38]" c] by (simp add: py_count_single)
  have bar: "occurrences [124, 124] c \<le> py_count [124] c"
    using occurrences_head_le[of 124 "[124]" c] by (simp add: py_count_single)
  have gt: "occurrences [62, 62] c \<le> py_count [62] c"
    using occurrences_head_le[of 62 "[62]" c] by (simp add: py_count_single)
  have dol: "py_count [36, 40] c = occurrences [36, 40] c"
    by (rule py_count_pair) simp
  from t consider "t = [59]" | "t = [124]" | "t = [38]" | "t = [96]" | "t = [36, 40]"
    | "t = [38, 38]" | "t = [124, 124]" | "t = [62]" | "t = [62, 62]" | "t = [60]"
    by (auto simp: dangerous_chars_values)
  then show "\<exists>t\<in>set dangerous_chars. 2 < py_count t c"
  proof cases
    case 5 then show ?thesis using t dol by (auto simp: dangerous_chars_values)
  next
    case 6 then show ?thesis using t amp by (auto simp: dangerous_chars_values)
  next
    case 7 then show ?thesis using t bar by (auto simp: dangerous_chars_values)
  next
    case 9 then show ?thesis using t gt by (auto simp: dangerous_chars_values)
  qed (use t in \<open>auto simp: dangerous_chars_values py_count_single\<close>)
qed

lemma is_command_safe_iff:
  "fst (is_command_safe uni windows command) = False \<longleftrightarrow>
     (\<exists>d\<in>set (dangerous_commands windows). sublist (py_lower uni d) (py_lower uni command)) \<or>
     (\<exists>t\<in>set dangerous_chars. 2 < occurrences t command)"
proof -
  have ne: "list_all (\<lambda>t. t \<noteq> []) dangerous_chars"
    by (simp add: dangerous_chars_values)
  show ?thesis
    unfolding more_than_twice_iff[symmetric]
    by (simp add: is_command_safe_def Let_def find_dangerous_iff[OF solid_dangerous]
                  find_injection_iff[OF ne])
qed

lemmas gate_eval = is_command_safe_def Let_def dangerous_commands_def dangerous_chars_def ascii_def
  py_lower_def ascii_lower_def py_strip_def strip_with_def lstrip_with_def rstrip_with_def
  is_space_def py_count_Nil py_count_Cons

lemma rejects_rm_rf: "fst (is_command_safe uni w (ascii ''rm -rf /'')) = False"
  by (simp add: gate_eval)

lemma rejects_shutdown: "fst (is_command_safe uni w (ascii ''shutdown'')) = False"
  by (simp add: gate_eval)

lemma rejects_three_semicolons: "fst (is_command_safe uni w (ascii ''a;b;c;d'')) = False"
  by (cases w) (simp_all add: gate_eval)

lemma accepts_two_semicolons: "fst (is_command_safe uni w (ascii ''a;b;c'')) = True"
  by (cases w) (simp_all add: gate_eval)

text \<open>
  C3. \<open>_is_command_safe\<close> returns false exactly when the lowered command contains the
  lowered form of an entry of the denylist as a substring, or a token of the list
  \<open>; | & ` $( && || > >> <\<close> occurs in the command more than twice (counting every
  position at which it occurs; the count of \<open>str.count\<close>, which skips overlapping
  occurrences, gives the same verdict). The commands \<open>rm -rf /\<close>, \<open>shutdown\<close> and
  \<open>a;b;c;d\<close> are rejected, and \<open>a;b;c\<close> is accepted.
\<close>

theorem is_command_safe_rejects_exactly:
  "(fst (is_command_safe uni windows command) = False \<longleftrightarrow>
      (\<exists>d\<in>set (dangerous_commands windows).
          sublist (py_lower uni d) (py_lower uni command)) \<or>
      (\<exists>t\<in>set dangerous_chars. 2 < occurrences t command)) \<and>
   fst (is_command_safe uni windows (ascii ''rm -rf /'')) = False \<and>
   fst (is_command_safe uni windows (ascii ''shutdown'')) = False \<and>
   fst (is_command_safe uni windows (ascii ''a;b;c;d'')) = False \<and>
   fst (is_command_safe uni windows (ascii ''a;b;c'')) = True"
  using is_command_safe_iff[of uni windows command] rejects_rm_rf[of uni windows]
    rejects_shutdown[of uni windows] rejects_three_semicolons[of uni windows]
    accepts_two_semicolons[of uni windows]
  by blast

section \<open>Properties of validate\<close>

lemma not_truthy_iff: "\<not> truthy v \<longleftrightarrow> is_empty v"
  by (cases v) (auto simp: is_empty_def)

lemma check_le_zero_eq:
  "check_le_zero v = Inr (if type_error v \<or> at_most_zero v then Some False else None)"
  by (auto simp: check_le_zero_def try_except_Exception_def le_int_def type_error_def
      at_most_zero_def split: option.splits)

lemma check_temperature_eq:
  "check_temperature v = Inr (if type_error v \<or> outside_0_2 v then Some False else None)"
  by (auto simp: check_temperature_def try_except_Exception_def chained_le_def int_le_def le_int_def
      type_error_def outside_0_2_def split: option.splits bool.splits)

text \<open>
  C4. \<open>validate\<close> always returns a bool, and it returns false exactly when the agent's
  \<open>api_key\<close> or \<open>base_url\<close> is empty, \<open>max_tokens\<close> is at most 0, \<open>temperature\<close>
  is outside [0, 2], \<open>workspace.max_size_mb\<close>, \<open>browser.timeout_seconds\<close> or
  \<open>search.max_results\<close> is at most 0, or one of these five comparisons raises a type
  error. The default settings fail.
\<close>

theorem validate_false_exactly:
  "validate s =
     Inr (\<not> (is_empty (api_key (agent s)) \<or> is_empty (base_url (agent s)) \<or>
             at_most_zero (max_tokens (agent s)) \<or> outside_0_2 (temperature (agent s)) \<or>
             at_most_zero (max_size_mb (workspace s)) \<or>
             at_most_zero (timeout_seconds (browser s)) \<or>
             at_most_zero (max_results (search s)) \<or>
             type_error (max_tokens (agent s)) \<or> type_error (temperature (agent s)) \<or>
             type_error (max_size_mb (workspace s)) \<or>
             type_error (timeout_seconds (browser s)) \<or>
             type_error (max_results (search s)))) \<and>
   validate default_Settings = Inr False"
proof -
  have 1: "validate s = Inr (\<not> (is_empty (api_key (agent s)) \<or> is_empty (base_url (agent s)) \<or>
             at_most_zero (max_tokens (agent s)) \<or> outside_0_2 (temperature (agent s)) \<or>
             at_most_zero (max_size_mb (workspace s)) \<or>
             at_most_zero (timeout_seconds (browser s)) \<or>
             at_most_zero (max_results (search s)) \<or>
             type_error (max_tokens (agent s)) \<or> type_error (temperature (agent s)) \<or>
             type_error (max_size_mb (workspace s)) \<or>
             type_error (timeout_seconds (browser s)) \<or>
             type_error (max_results (search s))))"
    unfolding validate_def check_le_zero_eq check_temperature_eq not_truthy_iff and_then_def
    by simp
  have 2: "validate default_Settings = Inr False"
    by (simp add: validate_def default_Settings_def default_AgentConfig_def)
  from 1 2 show ?thesis by simp
qed

theorem validate_false_exactly_witness:
  "validate example_Settings = Inr True \<and>
   validate (example_Settings\<lparr>agent := agent example_Settings\<lparr>max_tokens := VStr (ascii ''4000'')\<rparr>\<rparr>) = Inr False \<and>
   validate (example_Settings\<lparr>agent := agent example_Settings\<lparr>temperature := VFloat (Finite (5 / 2))\<rparr>\<rparr>) = Inr False"
  using validate_false_exactly[of example_Settings]
    validate_false_exactly[of "example_Settings\<lparr>agent := agent example_Settings\<lparr>max_tokens := VStr (ascii ''4000'')\<rparr>\<rparr>"]
    validate_false_exactly[of "example_Settings\<lparr>agent := agent example_Settings\<lparr>temperature := VFloat (Finite (5 / 2))\<rparr>\<rparr>"]
  by (simp add: example_Settings_def default_Settings_def default_AgentConfig_def
      default_WorkspaceConfig_def default_BrowserConfig_def default_SearchConfig_def
      is_empty_def at_most_zero_def outside_0_2_def type_error_def ascii_def)

section \<open>Properties of saving and loading the settings\<close>












section \<open>Properties of is_safe_path\<close>

text \<open>
  When resolving either path raises OSError or ValueError, the result is false; a path
  below a base directory (other than the root) is accepted.
\<close>

lemma is_safe_path_resolution_failure:
  assumes "resolve path = Inl e \<or> (\<exists>p. resolve path = Inr p \<and> resolve base_path = Inl e)"
    and "exc_cls e = OSError \<or> exc_cls e = ValueError"
  shows "is_safe_path resolve path base_path = Inr False"
  using assms by (auto simp: is_safe_path_def bind_exc_def)

lemma str_of_path_prefix:
  "prefix b p \<Longrightarrow> b \<noteq> [] \<Longrightarrow> prefix (str_of_path b) (str_of_path p)"
  by (auto simp: str_of_path_def prefix_def)

lemma is_safe_path_accepts_contained:
  assumes "resolve path = Inr p" and "resolve base_path = Inr b" and "b \<noteq> []"
    and "contained_in p b"
  shows "is_safe_path resolve path base_path = Inr True"
  using assms str_of_path_prefix[of b p]
  by (simp add: is_safe_path_def bind_exc_def contained_in_def)

text \<open>
  C1. The claim: \<open>is_safe_path\<close> returns true only if the resolved path is contained in
  the resolved base directory. The code compares the two strings with \<open>startswith\<close>:
  for the path \<open>/home/user2/secret\<close> and the base \<open>/home/user\<close> it returns true,
  although the path is not inside the base directory.
\<close>

theorem is_safe_path_accepts_sibling:
  "is_safe_path (\<lambda>s. Inr (path_parts s)) (ascii ''/home/user2/secret'') (ascii ''/home/user'') = Inr True \<and>
   \<not> contained_in (path_parts (ascii ''/home/user2/secret'')) (path_parts (ascii ''/home/user''))"
  by (simp add: is_safe_path_def bind_exc_def path_parts_def str_of_path_def contained_in_def ascii_def)

section \<open>Properties of the file tool\<close>

lemma py_slice_to_nonneg: "py_slice_to (int n) xs = take n xs"
  by (simp add: py_slice_to_def Let_def min_def)








lemma collapse_space_no_space: "list_all (\<lambda>c. \<not> is_space c) s \<Longrightarrow> collapse_space s = s"
  by (induction s) auto




text \<open>
  C5, as amended. For a file that the workspace manager reads as text and whose guessed
  MIME type does not start with \<open>application/\<close>, the read action returns the content
  in full when it has at most 50000 characters, and otherwise the first 5000 characters
  followed by the truncation note, with \<open>full_length\<close> the length of the content.
\<close>

theorem read_file_truncation:
  assumes "read_file wm path encoding = Inr (Some contents)"
    and "resolve_path wm path = Inr full_path"
    and "\<not> is_binary_mime (guess_type full_path)"
  shows "FileTool_read_file wm guess_type path encoding =
     Inr (if length contents \<le> 50000
          then \<lparr>success = True, message = [0x8BFB, 0x53D6, 0x6587, 0x4EF6, 0x6210, 0x529F],
                data = VDict [(ascii ''type'', VStr (ascii ''text'')),
                              (ascii ''content'', VStr contents),
                              (ascii ''length'', VInt (int (length contents))),
                              (ascii ''encoding'', VStr encoding)],
                error = None\<rparr>
          else \<lparr>success = True,
                message = [0x8BFB, 0x53D6, 0x6587, 0x4EF6, 0x6210, 0x529F, 0xFF08, 0x5185,
                           0x5BB9, 0x8FC7, 0x957F, 0xFF0C, 0x663E, 0x793A, 0x524D] @
                          ascii ''5000'' @ [0x5B57, 0x7B26, 0xFF09],
                data = VDict [(ascii ''type'', VStr (ascii ''text'')),
                              (ascii ''content'', VStr (take 5000 contents @ truncation_note)),
                              (ascii ''full_length'', VInt (int (length contents))),
                              (ascii ''encoding'', VStr encoding),
                              (ascii ''note'',
                               VStr [0x6587, 0x4EF6, 0x5185, 0x5BB9, 0x8FC7, 0x957F, 0xFF0C, 0x4EC5,
                                     0x663E, 0x793A, 0x9884, 0x89C8])],
                error = None\<rparr>)"
  using assms py_slice_to_nonneg[of 5000 contents]
  by (simp add: FileTool_read_file_def try_except_Exception_def bind_exc_def Let_def)

theorem read_file_truncation_witness:
  "FileTool_read_file (text_workspace (replicate 60000 97)) (\<lambda>p. Some (ascii ''text/plain''))
     (ascii ''big.txt'') (ascii ''utf-8'') =
     Inr \<lparr>success = True,
          message = [0x8BFB, 0x53D6, 0x6587, 0x4EF6, 0x6210, 0x529F, 0xFF08, 0x5185,
                     0x5BB9, 0x8FC7, 0x957F, 0xFF0C, 0x663E, 0x793A, 0x524D] @
                    ascii ''5000'' @ [0x5B57, 0x7B26, 0xFF09],
          data = VDict [(ascii ''type'', VStr (ascii ''text'')),
                        (ascii ''content'', VStr (replicate 5000 97 @ truncation_note)),
                        (ascii ''full_length'', VInt 60000),
                        (ascii ''encoding'', VStr (ascii ''utf-8'')),
                        (ascii ''note'',
                         VStr [0x6587, 0x4EF6, 0x5185, 0x5BB9, 0x8FC7, 0x957F, 0xFF0C, 0x4EC5,
                               0x663E, 0x793A, 0x9884, 0x89C8])],
          error = None\<rparr>"
proof -
  have b: "\<not> is_binary_mime ((\<lambda>p. Some (ascii ''text/plain'')) (ascii ''/ws/'' @ ascii ''big.txt''))"
    by (simp add: is_binary_mime_def ascii_def)
  show ?thesis
    using read_file_truncation[of "text_workspace (replicate 60000 97)" "ascii ''big.txt''"
        "ascii ''utf-8''" "replicate 60000 97" "ascii ''/ws/'' @ ascii ''big.txt''"
        "\<lambda>p. Some (ascii ''text/plain'')", OF _ _ b]
    by (simp add: text_workspace_def)
qed

text \<open>
  C5 as stated speaks of every readable text file. A JSON file is text, but its guessed
  MIME type is \<open>application/json\<close>: the read action answers with the metadata of a
  binary file and no content.
\<close>

theorem read_file_hides_json_text:
  "FileTool_read_file (text_workspace (ascii ''{}'')) (\<lambda>p. Some (ascii ''application/json''))
     (ascii ''data.json'') (ascii ''utf-8'') =
     Inr \<lparr>success = True,
          message = [0x68C0, 0x6D4B, 0x5230, 0x4E8C, 0x8FDB, 0x5236, 0x6587, 0x4EF6,
                     0xFF0C, 0x663E, 0x793A, 0x57FA, 0x672C, 0x4FE1, 0x606F],
          data = VDict [(ascii ''type'', VStr (ascii ''binary'')),
                        (ascii ''mime_type'', VStr (ascii ''application/json'')),
                        (ascii ''size'', VInt 0),
                        (ascii ''encoding'', VStr (ascii ''utf-8'')),
                        (ascii ''note'',
                         VStr [0x8FD9, 0x662F, 0x4E00, 0x4E2A, 0x4E8C, 0x8FDB, 0x5236, 0x6587,
                               0x4EF6, 0xFF0C, 0x65E0, 0x6CD5, 0x76F4, 0x63A5, 0x663E, 0x793A,
                               0x5185, 0x5BB9])],
          error = None\<rparr>"
  by (simp add: FileTool_read_file_def try_except_Exception_def bind_exc_def Let_def
      text_workspace_def is_binary_mime_def) (simp add: ascii_def)

section \<open>Properties of the browser tool\<close>



















end
